theory Spec2Isabelle
  imports Complex_Main
begin

section \<open>Shared data\<close>

text \<open>
  The Python sources compute with \<open>float\<close>. The embedding uses the reals: rounding, overflow,
  NaN and infinities are outside the model, so every result below is about the arithmetic the
  source writes down, not about its rounding. A position is the tuple \<open>(x, y, z)\<close>.
\<close>

type_synonym point = "real \<times> real \<times> real"

text \<open>The exceptions that the modelled code raises or catches.\<close>

datatype py_error = ValueError | ZeroDivisionError | LinAlgError | OtherException

section \<open>uwb/trilateration.py\<close>

subsection \<open>The external solvers\<close>

text \<open>
  \<open>numpy.linalg.lstsq\<close> and \<open>scipy.optimize.minimize\<close> are library calls. Each is a parameter
  of the model: a function that either raises (\<open>Inl\<close>) or returns the library's result value.
  \<open>lstsq\<close> returns the tuple \<open>(x, residuals, rank, s)\<close>; \<open>minimize\<close> returns an
  \<open>OptimizeResult\<close>, of which the source reads \<open>success\<close>, \<open>x\<close>, \<open>fun\<close> and \<open>message\<close>.
\<close>

record lstsq_result =
  lstsq_x :: point
  lstsq_residuals :: "real list"
  lstsq_rank :: nat
  lstsq_s :: "real list"

record optimize_result =
  res_success :: bool
  res_x :: point
  res_fun :: real
  res_message :: string

type_synonym lstsq_fn = "real list list \<Rightarrow> real list \<Rightarrow> py_error + lstsq_result"

type_synonym minimize_fn = "(point \<Rightarrow> real) \<Rightarrow> point \<Rightarrow> py_error + optimize_result"

subsection \<open>class Trilateration\<close>

record Trilateration =
  anchor_positions :: "point list"
  num_anchors :: nat

text \<open>\<open>__init__\<close>: raises \<open>ValueError\<close> for fewer than four anchors, otherwise stores the
  positions and their number.\<close>

definition Trilateration_init :: "point list \<Rightarrow> py_error + Trilateration" where
  "Trilateration_init aps =
     (if length aps < 4 then Inl ValueError
      else Inr \<lparr>anchor_positions = aps, num_anchors = length aps\<rparr>)"

text \<open>Row \<open>i - 1\<close> of \<open>A\<close> and entry \<open>i - 1\<close> of \<open>b\<close>, as the loop body of
  \<open>linear_least_squares\<close> computes them from the reference anchor \<open>(x0, y0, z0)\<close>, its
  distance \<open>r0\<close>, anchor \<open>i\<close> and its distance \<open>ri\<close>.\<close>

fun lls_row :: "point \<Rightarrow> point \<Rightarrow> real list" where
  "lls_row (x0, y0, z0) (xi, yi, zi) = [2 * (xi - x0), 2 * (yi - y0), 2 * (zi - z0)]"

fun lls_rhs :: "point \<Rightarrow> real \<Rightarrow> point \<Rightarrow> real \<Rightarrow> real" where
  "lls_rhs (x0, y0, z0) r0 (xi, yi, zi) ri =
     (ri\<^sup>2 - r0\<^sup>2) - (xi\<^sup>2 - x0\<^sup>2) - (yi\<^sup>2 - y0\<^sup>2) - (zi\<^sup>2 - z0\<^sup>2)"

text \<open>The loop \<open>for i in range(1, num_anchors)\<close>: it walks the indices and overwrites row
  \<open>i - 1\<close> of the zero-initialised \<open>A\<close> and \<open>b\<close>.\<close>

fun lls_fill :: "point list \<Rightarrow> real list \<Rightarrow> nat list \<Rightarrow>
                 real list list \<times> real list \<Rightarrow> real list list \<times> real list" where
  "lls_fill aps ds [] Ab = Ab"
| "lls_fill aps ds (i # idxs) (A, b) =
     lls_fill aps ds idxs
       (A[i - 1 := lls_row (aps ! 0) (aps ! i)],
        b[i - 1 := lls_rhs (aps ! 0) (ds ! 0) (aps ! i) (ds ! i)])"

definition lls_system :: "Trilateration \<Rightarrow> real list \<Rightarrow> real list list \<times> real list" where
  "lls_system t distances =
     lls_fill (anchor_positions t) distances [1 ..< num_anchors t]
       (replicate (num_anchors t - 1) [0, 0, 0], replicate (num_anchors t - 1) 0)"

text \<open>
  \<open>linear_least_squares\<close>: \<open>None\<close> on a length mismatch; otherwise everything runs inside
  \<open>try\<close>, and any exception gives \<open>None\<close>. With no anchors \<open>np.zeros((-1, 3))\<close> raises, and an
  index beyond the stored positions raises; an object built by \<open>__init__\<close> reaches neither.
  The \<open>residuals\<close>, \<open>rank\<close> and \<open>s\<close> that \<open>lstsq\<close> returns are only logged.
\<close>

definition linear_least_squares :: "lstsq_fn \<Rightarrow> Trilateration \<Rightarrow> real list \<Rightarrow> point option" where
  "linear_least_squares lstsq t distances =
     (if length distances \<noteq> num_anchors t then None
      else if num_anchors t = 0 \<or> length (anchor_positions t) < num_anchors t then None
      else (case lls_system t distances of (A, b) \<Rightarrow>
              (case lstsq A b of
                 Inl e \<Rightarrow> None
               | Inr r \<Rightarrow> Some (lstsq_x r))))"

text \<open>\<open>np.mean(self.anchor_positions, axis=0)\<close>: the centroid of the anchors (of at least four
  anchors, for an object built by \<open>__init__\<close>).\<close>

definition centroid :: "point list \<Rightarrow> point" where
  "centroid aps =
     (sum_list (map fst aps) / real (length aps),
      sum_list (map (fst \<circ> snd) aps) / real (length aps),
      sum_list (map (snd \<circ> snd) aps) / real (length aps))"

text \<open>\<open>np.linalg.norm(point - anchor)\<close>.\<close>

fun norm3 :: "point \<Rightarrow> point \<Rightarrow> real" where
  "norm3 (px, py, pz) (ax, ay, az) = sqrt ((px - ax)\<^sup>2 + (py - ay)\<^sup>2 + (pz - az)\<^sup>2)"

text \<open>The inner function \<open>objective\<close>: the loop over \<open>range(num_anchors)\<close> adds the squared
  range error of each anchor to \<open>error_sum\<close>. Its indices are in range for an object built
  by \<open>__init__\<close> and distances of the checked length, the only arguments it is called with.\<close>

fun objective_loop :: "point list \<Rightarrow> real list \<Rightarrow> point \<Rightarrow> nat list \<Rightarrow> real \<Rightarrow> real" where
  "objective_loop aps ds p [] error_sum = error_sum"
| "objective_loop aps ds p (i # idxs) error_sum =
     objective_loop aps ds p idxs (error_sum + (norm3 p (aps ! i) - ds ! i)\<^sup>2)"

definition objective :: "Trilateration \<Rightarrow> real list \<Rightarrow> point \<Rightarrow> real" where
  "objective t distances p =
     objective_loop (anchor_positions t) distances p [0 ..< num_anchors t] 0"

text \<open>
  \<open>nonlinear_optimization\<close>: \<open>None\<close> on a length mismatch; the initial guess defaults to the
  centroid; an exception of \<open>minimize\<close> and a result whose \<open>success\<close> is false both give
  \<open>None\<close>.
\<close>

definition nonlinear_optimization ::
  "minimize_fn \<Rightarrow> Trilateration \<Rightarrow> real list \<Rightarrow> point option \<Rightarrow> point option" where
  "nonlinear_optimization minimize t distances initial_guess =
     (if length distances \<noteq> num_anchors t then None
      else
        let guess = (case initial_guess of
                       None \<Rightarrow> centroid (anchor_positions t)
                     | Some g \<Rightarrow> g)
        in (case minimize (objective t distances) guess of
              Inl e \<Rightarrow> None
            | Inr result \<Rightarrow> if res_success result then Some (res_x result) else None))"

text \<open>\<open>multilateral_algorithm\<close>: linear least squares first, then the optimizer from that
  result; when either gives \<open>None\<close>, the optimizer from the default initial guess.\<close>

definition multilateral_algorithm ::
  "lstsq_fn \<Rightarrow> minimize_fn \<Rightarrow> Trilateration \<Rightarrow> real list \<Rightarrow> point option" where
  "multilateral_algorithm lstsq minimize t distances =
     (case linear_least_squares lstsq t distances of
        Some lls_result \<Rightarrow>
          (case nonlinear_optimization minimize t distances (Some lls_result) of
             Some opt_result \<Rightarrow> Some opt_result
           | None \<Rightarrow> nonlinear_optimization minimize t distances None)
      | None \<Rightarrow> nonlinear_optimization minimize t distances None)"

text \<open>\<open>estimate_position\<close>: dispatch on the method name; an unknown name gives \<open>None\<close>.\<close>

definition estimate_position ::
  "lstsq_fn \<Rightarrow> minimize_fn \<Rightarrow> Trilateration \<Rightarrow> real list \<Rightarrow> string \<Rightarrow> point option" where
  "estimate_position lstsq minimize t distances method =
     (if method = ''lls'' then linear_least_squares lstsq t distances
      else if method = ''nonlinear'' then nonlinear_optimization minimize t distances None
      else if method = ''multi'' then multilateral_algorithm lstsq minimize t distances
      else None)"

section \<open>simulation/uwb\_sensor\_model.py\<close>

record UWBSensor =
  sensor_id :: string
  position :: point
  range_noise_std :: real
  max_range :: real
  detection_probability :: real
  update_rate :: real
  last_measurement_time :: real

text \<open>\<open>__init__\<close>: \<open>generated_id\<close> is the identifier made from \<open>uuid.uuid4()\<close>, used when no
  (or an empty) \<open>sensor_id\<close> is given. \<open>last_measurement_time\<close> starts at \<open>0.0\<close>.\<close>

definition UWBSensor_init ::
  "string \<Rightarrow> string option \<Rightarrow> point \<Rightarrow> real \<Rightarrow> real \<Rightarrow> real \<Rightarrow> real \<Rightarrow> UWBSensor" where
  "UWBSensor_init generated_id sid pos noise_std mrange dprob rate =
     \<lparr>sensor_id = (case sid of None \<Rightarrow> generated_id
                    | Some s \<Rightarrow> if s = [] then generated_id else s),
      position = pos,
      range_noise_std = noise_std,
      max_range = mrange,
      detection_probability = dprob,
      update_rate = rate,
      last_measurement_time = 0\<rparr>"

text \<open>
  What one call of \<open>measure_distance\<close> reads from outside: the clock \<open>time.time()\<close>, the draw of
  \<open>np.random.random()\<close> (a value in \<open>[0, 1)\<close>) and the standard normal deviate behind
  \<open>np.random.normal(0, std)\<close>, which is \<open>0 + std * deviate\<close> and raises \<open>ValueError\<close> for a
  negative \<open>std\<close>.
\<close>

record draws =
  clock :: real
  uniform_draw :: real
  normal_draw :: real

text \<open>
  \<open>measure_distance\<close> returns the result (or the exception raised) together with the sensor
  after the call. The order is the source's: the rate check (its division raises on a zero
  rate), the assignment to \<open>last_measurement_time\<close>, the distance, the range check, the
  detection draw, the noise, the clamp at zero.
\<close>

definition measure_distance ::
  "draws \<Rightarrow> UWBSensor \<Rightarrow> point \<Rightarrow> real option \<Rightarrow> (py_error + real option) \<times> UWBSensor" where
  "measure_distance env s target_position current_time =
     (let now = (case current_time of None \<Rightarrow> clock env | Some ct \<Rightarrow> ct) in
      if update_rate s = 0 then (Inl ZeroDivisionError, s)
      else if now - last_measurement_time s < 1 / update_rate s then (Inr None, s)
      else
        let s' = s\<lparr>last_measurement_time := now\<rparr>;
            true_distance = norm3 target_position (position s')
        in if true_distance > max_range s' then (Inr None, s')
           else if uniform_draw env > detection_probability s' then (Inr None, s')
           else if range_noise_std s' < 0 then (Inl ValueError, s')
           else (Inr (Some (max 0 (true_distance + (0 + range_noise_std s' * normal_draw env)))), s'))"

section \<open>A worked configuration\<close>

text \<open>
  The anchors of the module's own example (\<open>__main__\<close>): the four ceiling corners of a
  5 m by 5 m room, all at height 2.5 m, hence coplanar. The distances are those of the point
  \<open>(2.5, 2.5, 1.25)\<close>, which is 3.75 m from every anchor.
\<close>

definition example_anchors :: "point list" where
  "example_anchors = [(0, 0, 5/2), (5, 0, 5/2), (5, 5, 5/2), (0, 5, 5/2)]"

definition example_trilat :: Trilateration where
  "example_trilat = \<lparr>anchor_positions = example_anchors, num_anchors = 4\<rparr>"

definition example_distances :: "real list" where
  "example_distances = [15/4, 15/4, 15/4, 15/4]"

text \<open>
  \<open>lstsq\<close> at the system of this configuration. The third column of \<open>A\<close> is zero, so the
  system has rank 2; \<open>numpy.linalg.lstsq\<close> does not raise on a rank-deficient matrix but
  returns the least-squares solution of minimal norm, here \<open>(-2.5, -2.5, 0)\<close>, with an empty
  \<open>residuals\<close> array, \<open>rank = 2\<close> and the singular values. Any other system is outside this
  stand-in.
\<close>

definition example_lstsq :: lstsq_fn where
  "example_lstsq A b =
     (if A = [[10, 0, 0], [10, 10, 0], [0, 10, 0]] \<and> b = [-25, -50, -25]
      then Inr \<lparr>lstsq_x = (-5/2, -5/2, 0), lstsq_residuals = [], lstsq_rank = 2,
                lstsq_s = [sqrt 300, 10, 0]\<rparr>
      else Inl LinAlgError)"

text \<open>
  Three stand-ins for the optimizer, each one behaviour that \<open>minimize\<close> can show: it stops
  without meeting its tolerance and reports \<open>success = False\<close> with its iterate
  (\<open>minimize_not_converged\<close>); it does so from every start but the anchor centroid
  \<open>(2.5, 2.5, 2.5)\<close>, from which it converges (\<open>minimize_converges_from_centroid\<close>); it
  converges from every start, to the centroid when started there (a stationary point of
  the objective, by symmetry) and to \<open>(2.5, 2.5, 1.25)\<close> otherwise
  (\<open>minimize_converges\<close>).
\<close>

definition minimize_not_converged :: minimize_fn where
  "minimize_not_converged f guess =
     Inr \<lparr>res_success = False, res_x = guess, res_fun = f guess,
          res_message = ''ABNORMAL_TERMINATION_IN_LNSRCH''\<rparr>"

definition minimize_converges_from_centroid :: minimize_fn where
  "minimize_converges_from_centroid f guess =
     (if guess = (5/2, 5/2, 5/2)
      then Inr \<lparr>res_success = True, res_x = (5/2, 5/2, 5/4), res_fun = f (5/2, 5/2, 5/4),
                res_message = ''CONVERGENCE''\<rparr>
      else Inr \<lparr>res_success = False, res_x = guess, res_fun = f guess,
                res_message = ''ABNORMAL_TERMINATION_IN_LNSRCH''\<rparr>)"

definition minimize_converges :: minimize_fn where
  "minimize_converges f guess =
     (if guess = (5/2, 5/2, 5/2)
      then Inr \<lparr>res_success = True, res_x = guess, res_fun = f guess,
                res_message = ''CONVERGENCE''\<rparr>
      else Inr \<lparr>res_success = True, res_x = (5/2, 5/2, 5/4), res_fun = f (5/2, 5/2, 5/4),
                res_message = ''CONVERGENCE''\<rparr>)"

section \<open>Two configurations with exact distances\<close>

text \<open>The left-hand side of one equation of Stage A's system, \<open>A[j] . p\<close>, at a candidate
  position \<open>p\<close>.\<close>

definition dot3 :: "real list \<Rightarrow> point \<Rightarrow> real" where
  "dot3 row p = row ! 0 * fst p + row ! 1 * fst (snd p) + row ! 2 * snd (snd p)"

text \<open>
  Anchors on the coordinate axes, \<open>(0,0,0)\<close>, \<open>(6,0,0)\<close>, \<open>(0,8,0)\<close> and \<open>(0,0,24)\<close> (not
  coplanar), and the exact distances of the target \<open>(3, 4, 12)\<close>, which is 13 m from each of
  them. The system Stage A builds is diagonal, of full rank, so \<open>lstsq\<close> returns its one
  solution, an empty \<open>residuals\<close> array (the system is square), \<open>rank = 3\<close> and the singular
  values 48, 16, 12.
\<close>

definition axis_anchors :: "point list" where
  "axis_anchors = [(0, 0, 0), (6, 0, 0), (0, 8, 0), (0, 0, 24)]"

definition axis_trilat :: Trilateration where
  "axis_trilat = \<lparr>anchor_positions = axis_anchors, num_anchors = 4\<rparr>"

definition axis_distances :: "real list" where
  "axis_distances = map (norm3 (3, 4, 12)) axis_anchors"

definition axis_lstsq :: lstsq_fn where
  "axis_lstsq A b =
     (if A = [[12, 0, 0], [0, 16, 0], [0, 0, 48]] \<and> b = [-36, -64, -576]
      then Inr \<lparr>lstsq_x = (-3, -4, -12), lstsq_residuals = [], lstsq_rank = 3,
                lstsq_s = [48, 16, 12]\<rparr>
      else Inl LinAlgError)"

text \<open>
  The anchors \<open>(0,0,0)\<close>, \<open>(5,0,0)\<close>, \<open>(5,5,0)\<close>, \<open>(0,5,2.5)\<close> of the noiseless-recovery test
  and the exact distances of its target \<open>(2.5, 2.5, 1.0)\<close>.
\<close>

definition recovery_anchors :: "point list" where
  "recovery_anchors = [(0, 0, 0), (5, 0, 0), (5, 5, 0), (0, 5, 5/2)]"

definition recovery_trilat :: Trilateration where
  "recovery_trilat = \<lparr>anchor_positions = recovery_anchors, num_anchors = 4\<rparr>"

definition recovery_distances :: "real list" where
  "recovery_distances = map (norm3 (5/2, 5/2, 1)) recovery_anchors"

section \<open>Construction of the anchor set\<close>

text \<open>
  C9. Construction fails exactly when fewer than four anchor positions are given, and the
  failure is the constructor's \<open>ValueError\<close>; with four or more positions it succeeds and
  stores them unchanged, whatever their geometry (coplanar anchors included).
\<close>

theorem Trilateration_init_fails_iff:
  "((\<exists>e. Trilateration_init aps = Inl e) \<longleftrightarrow> length aps < 4) \<and>
   ((Trilateration_init aps = Inl ValueError) \<longleftrightarrow> length aps < 4) \<and>
   ((Trilateration_init aps = Inr \<lparr>anchor_positions = aps, num_anchors = length aps\<rparr>)
      \<longleftrightarrow> 4 \<le> length aps) \<and>
   Trilateration_init [(0, 0, 5/2), (5, 0, 5/2), (5, 5, 5/2), (0, 5, 5/2)] =
     Inr \<lparr>anchor_positions = [(0, 0, 5/2), (5, 0, 5/2), (5, 5, 5/2), (0, 5, 5/2)],
          num_anchors = 4\<rparr>"
  by (auto simp add: Trilateration_init_def)

section \<open>The range measurement source\<close>

text \<open>
  C10. A freshly constructed sensor with update rate \<open>R\<close> has \<open>last_measurement_time = 0.0\<close>,
  and the rate check compares against absolute time: the first call at any \<open>current_time\<close>
  strictly below \<open>1 / R\<close> returns \<open>None\<close> and leaves the sensor as it was, whatever the target
  and the random draws. (\<open>R = 0\<close> has no \<open>1 / R\<close>: the source's division raises there.)
\<close>

theorem fresh_sensor_first_call_gated:
  "rate \<noteq> 0 \<Longrightarrow> (case ct of None \<Rightarrow> clock env | Some c \<Rightarrow> c) < 1 / rate \<Longrightarrow>
   measure_distance env (UWBSensor_init gid sid pos std mr dp rate) target ct =
     (Inr None, UWBSensor_init gid sid pos std mr dp rate)"
  by (simp add: measure_distance_def UWBSensor_init_def)

theorem fresh_sensor_first_call_gated_witness:
  "(10::real) \<noteq> 0 \<and>
   (case Some (1/20) of
      None \<Rightarrow> clock \<lparr>clock = 7, uniform_draw = 0, normal_draw = 0\<rparr>
    | Some c \<Rightarrow> c) < 1 / (10::real) \<and>
   measure_distance \<lparr>clock = 7, uniform_draw = 0, normal_draw = 0\<rparr>
       (UWBSensor_init ''uwb_1'' None (0, 0, 0) (1/10) 100 (19/20) 10) (1, 2, 3) (Some (1/20)) =
     (Inr None, UWBSensor_init ''uwb_1'' None (0, 0, 0) (1/10) 100 (19/20) 10)"
  using fresh_sensor_first_call_gated
          [where rate = 10 and ct = "Some (1/20)"
             and env = "\<lparr>clock = 7, uniform_draw = 0, normal_draw = 0\<rparr>"
             and gid = "''uwb_1''" and sid = None and pos = "(0, 0, 0)" and std = "1/10"
             and mr = 100 and dp = "19/20" and target = "(1, 2, 3)"]
  by simp

text \<open>
  C1, as stated, fails. A sensor at the origin with \<open>max_range = 100\<close> and
  \<open>last_measurement_time = 0\<close> is asked at time 5 for a target 200 m away: the call returns
  \<open>None\<close> (out of range), and \<open>last_measurement_time\<close> is 5 afterwards. The same happens when
  the target is in range (5 m) and the detection draw \<open>0.99\<close> exceeds the detection
  probability \<open>0.95\<close>.
\<close>

theorem failed_measurement_advances_clock:
  "fst (measure_distance \<lparr>clock = 5, uniform_draw = 0, normal_draw = 0\<rparr>
          \<lparr>sensor_id = ''uwb_1'', position = (0, 0, 0), range_noise_std = 1/10,
           max_range = 100, detection_probability = 19/20, update_rate = 10,
           last_measurement_time = 0\<rparr>
          (200, 0, 0) (Some 5)) = Inr None \<and>
   last_measurement_time
     (snd (measure_distance \<lparr>clock = 5, uniform_draw = 0, normal_draw = 0\<rparr>
          \<lparr>sensor_id = ''uwb_1'', position = (0, 0, 0), range_noise_std = 1/10,
           max_range = 100, detection_probability = 19/20, update_rate = 10,
           last_measurement_time = 0\<rparr>
          (200, 0, 0) (Some 5))) = 5 \<and>
   fst (measure_distance \<lparr>clock = 5, uniform_draw = 99/100, normal_draw = 0\<rparr>
          \<lparr>sensor_id = ''uwb_1'', position = (0, 0, 0), range_noise_std = 1/10,
           max_range = 100, detection_probability = 19/20, update_rate = 10,
           last_measurement_time = 0\<rparr>
          (3, 4, 0) (Some 5)) = Inr None \<and>
   last_measurement_time
     (snd (measure_distance \<lparr>clock = 5, uniform_draw = 99/100, normal_draw = 0\<rparr>
          \<lparr>sensor_id = ''uwb_1'', position = (0, 0, 0), range_noise_std = 1/10,
           max_range = 100, detection_probability = 19/20, update_rate = 10,
           last_measurement_time = 0\<rparr>
          (3, 4, 0) (Some 5))) = 5"
  by (simp add: measure_distance_def Let_def)

text \<open>
  C1, amended. \<open>last_measurement_time\<close> is the only field a call changes, and it is set to
  \<open>current_time\<close> exactly by the calls that pass the rate check, whether or not they go on to
  return a measurement; a call that the rate check rejects (or whose rate division raises)
  leaves the sensor unchanged. In particular every call that returns a measurement has set
  \<open>last_measurement_time\<close> to \<open>current_time\<close>.
\<close>

theorem measure_distance_clock_update:
  "snd (measure_distance env s target ct) =
     (let now = (case ct of None \<Rightarrow> clock env | Some c \<Rightarrow> c) in
      if update_rate s = 0 \<or> now - last_measurement_time s < 1 / update_rate s then s
      else s\<lparr>last_measurement_time := now\<rparr>) \<and>
   (fst (measure_distance env s target ct) = Inr (Some d) \<longrightarrow>
      snd (measure_distance env s target ct) =
        s\<lparr>last_measurement_time := (case ct of None \<Rightarrow> clock env | Some c \<Rightarrow> c)\<rparr>)"
  by (simp add: measure_distance_def Let_def)

theorem measure_distance_clock_update_witness:
  "fst (measure_distance \<lparr>clock = 1, uniform_draw = 1/2, normal_draw = 0\<rparr>
          \<lparr>sensor_id = ''uwb_1'', position = (0, 0, 0), range_noise_std = 1/10,
           max_range = 100, detection_probability = 19/20, update_rate = 10,
           last_measurement_time = 0\<rparr>
          (3, 4, 0) (Some 1)) = Inr (Some 5) \<and>
   snd (measure_distance \<lparr>clock = 1, uniform_draw = 1/2, normal_draw = 0\<rparr>
          \<lparr>sensor_id = ''uwb_1'', position = (0, 0, 0), range_noise_std = 1/10,
           max_range = 100, detection_probability = 19/20, update_rate = 10,
           last_measurement_time = 0\<rparr>
          (3, 4, 0) (Some 1)) =
     \<lparr>sensor_id = ''uwb_1'', position = (0, 0, 0), range_noise_std = 1/10,
      max_range = 100, detection_probability = 19/20, update_rate = 10,
      last_measurement_time = 1\<rparr>"
proof -
  have detected:
    "fst (measure_distance \<lparr>clock = 1, uniform_draw = 1/2, normal_draw = 0\<rparr>
          \<lparr>sensor_id = ''uwb_1'', position = (0, 0, 0), range_noise_std = 1/10,
           max_range = 100, detection_probability = 19/20, update_rate = 10,
           last_measurement_time = 0\<rparr>
          (3, 4, 0) (Some 1)) = Inr (Some 5)"
    by (simp add: measure_distance_def Let_def)
  from detected
    measure_distance_clock_update
      [where env = "\<lparr>clock = 1, uniform_draw = 1/2, normal_draw = 0\<rparr>"
         and s = "\<lparr>sensor_id = ''uwb_1'', position = (0, 0, 0), range_noise_std = 1/10,
                   max_range = 100, detection_probability = 19/20, update_rate = 10,
                   last_measurement_time = 0\<rparr>"
         and target = "(3, 4, 0)" and ct = "Some 1" and d = 5]
  show ?thesis by simp
qed

text \<open>
  C8 at its boundary. \<open>np.random.random()\<close> draws from \<open>[0, 1)\<close>, so the draw can be \<open>0.0\<close>.
  With \<open>detection_probability = 0.0\<close> the test \<open>draw > detection_probability\<close> is then false,
  and a call that passed the rate check on a target in range (5 m, \<open>max_range = 100\<close>) returns
  a measurement.
\<close>

theorem zero_detection_probability_zero_draw_detects:
  "measure_distance \<lparr>clock = 1, uniform_draw = 0, normal_draw = 0\<rparr>
      \<lparr>sensor_id = ''uwb_1'', position = (0, 0, 0), range_noise_std = 1/10,
       max_range = 100, detection_probability = 0, update_rate = 10,
       last_measurement_time = 0\<rparr>
      (3, 4, 0) (Some 1) =
   (Inr (Some 5),
    \<lparr>sensor_id = ''uwb_1'', position = (0, 0, 0), range_noise_std = 1/10,
     max_range = 100, detection_probability = 0, update_rate = 10,
     last_measurement_time = 1\<rparr>)"
  by (simp add: measure_distance_def Let_def)

text \<open>
  The rest of the boundary behaviour holds: with \<open>detection_probability = 0\<close> every positive
  draw is a missed detection, and with \<open>detection_probability = 1\<close> every draw below 1 is a
  detection (for a call past the rate check, a target in range and a non-negative noise
  deviation).
\<close>

lemma zero_detection_probability_positive_draw:
  assumes "update_rate s \<noteq> 0"
      and "\<not> now - last_measurement_time s < 1 / update_rate s"
      and "norm3 target (position s) \<le> max_range s"
      and "detection_probability s = 0"
      and "0 < uniform_draw env"
  shows "fst (measure_distance env s target (Some now)) = Inr None"
  using assms by (simp add: measure_distance_def Let_def)

lemma full_detection_probability_detects:
  assumes "update_rate s \<noteq> 0"
      and "\<not> now - last_measurement_time s < 1 / update_rate s"
      and "norm3 target (position s) \<le> max_range s"
      and "detection_probability s = 1"
      and "uniform_draw env < 1"
      and "0 \<le> range_noise_std s"
  shows "fst (measure_distance env s target (Some now)) =
           Inr (Some (max 0 (norm3 target (position s) + range_noise_std s * normal_draw env)))"
  using assms by (simp add: measure_distance_def Let_def)

section \<open>Stage A: the linear system\<close>

text \<open>The loop keeps the sizes of \<open>A\<close> and \<open>b\<close>, leaves alone every row that no index
  addresses, and writes row \<open>i - 1\<close> for each index \<open>i\<close> it visits.\<close>

lemma lls_fill_length:
  "length (fst (lls_fill aps ds idxs Ab)) = length (fst Ab) \<and>
   length (snd (lls_fill aps ds idxs Ab)) = length (snd Ab)"
  by (induction aps ds idxs Ab rule: lls_fill.induct) simp_all

lemma lls_fill_untouched:
  "\<forall>i\<in>set idxs. i - 1 \<noteq> j \<Longrightarrow>
   fst (lls_fill aps ds idxs Ab) ! j = fst Ab ! j \<and>
   snd (lls_fill aps ds idxs Ab) ! j = snd Ab ! j"
  by (induction aps ds idxs Ab rule: lls_fill.induct) simp_all

lemma lls_fill_nth:
  "distinct idxs \<Longrightarrow> \<forall>k\<in>set idxs. 1 \<le> k \<Longrightarrow> i \<in> set idxs \<Longrightarrow>
   i - 1 < length (fst Ab) \<Longrightarrow> i - 1 < length (snd Ab) \<Longrightarrow>
   fst (lls_fill aps ds idxs Ab) ! (i - 1) = lls_row (aps ! 0) (aps ! i) \<and>
   snd (lls_fill aps ds idxs Ab) ! (i - 1) = lls_rhs (aps ! 0) (ds ! 0) (aps ! i) (ds ! i)"
proof (induction aps ds idxs Ab rule: lls_fill.induct)
  case (1 aps ds Ab)
  then show ?case by simp
next
  case (2 aps ds k idxs A b)
  show ?case
  proof (cases "i = k")
    case True
    have "\<forall>m\<in>set idxs. m - 1 \<noteq> k - 1"
    proof
      fix m assume m: "m \<in> set idxs"
      with "2.prems"(1,2) have "1 \<le> m" "1 \<le> k" "m \<noteq> k" by auto
      then show "m - 1 \<noteq> k - 1" by arith
    qed
    then show ?thesis
      using True "2.prems"(4,5)
        lls_fill_untouched [of idxs "k - 1" aps ds
           "(A[k - 1 := lls_row (aps ! 0) (aps ! k)],
             b[k - 1 := lls_rhs (aps ! 0) (ds ! 0) (aps ! k) (ds ! k)])"]
      by simp
  next
    case False
    then show ?thesis
      using "2.prems" "2.IH" by simp
  qed
qed

lemma Trilateration_init_fields:
  assumes "Trilateration_init aps = Inr t"
  shows "anchor_positions t = aps" and "num_anchors t = length aps" and "4 \<le> length aps"
  using assms by (auto simp add: Trilateration_init_def split: if_splits)

lemma lls_system_length:
  assumes "Trilateration_init aps = Inr t"
  shows "length (fst (lls_system t ds)) = length aps - 1"
    and "length (snd (lls_system t ds)) = length aps - 1"
  using lls_fill_length [of aps ds "[1 ..< length aps]"
          "(replicate (length aps - 1) [0, 0, 0], replicate (length aps - 1) 0)"]
  by (simp_all add: lls_system_def Trilateration_init_fields [OF assms])

lemma lls_system_nth:
  assumes "Trilateration_init aps = Inr t" and "1 \<le> i" and "i < length aps"
  shows "fst (lls_system t ds) ! (i - 1) = lls_row (aps ! 0) (aps ! i)"
    and "snd (lls_system t ds) ! (i - 1) = lls_rhs (aps ! 0) (ds ! 0) (aps ! i) (ds ! i)"
proof -
  have "fst (lls_system t ds) ! (i - 1) = lls_row (aps ! 0) (aps ! i) \<and>
        snd (lls_system t ds) ! (i - 1) = lls_rhs (aps ! 0) (ds ! 0) (aps ! i) (ds ! i)"
    unfolding lls_system_def Trilateration_init_fields [OF assms(1)]
    by (rule lls_fill_nth) (use assms(2,3) in auto)
  then show "fst (lls_system t ds) ! (i - 1) = lls_row (aps ! 0) (aps ! i)"
    and "snd (lls_system t ds) ! (i - 1) = lls_rhs (aps ! 0) (ds ! 0) (aps ! i) (ds ! i)"
    by simp_all
qed

lemma linear_least_squares_solve:
  assumes "Trilateration_init aps = Inr t" and "length ds = length aps"
  shows "linear_least_squares lstsq t ds =
           (case lstsq (fst (lls_system t ds)) (snd (lls_system t ds)) of
              Inl e \<Rightarrow> None
            | Inr r \<Rightarrow> Some (lstsq_x r))"
  using assms(2) Trilateration_init_fields [OF assms(1)]
  by (auto simp add: linear_least_squares_def split: prod.splits)

text \<open>The worked configuration, evaluated.\<close>

lemma example_fields:
  "anchor_positions example_trilat = example_anchors" "num_anchors example_trilat = 4"
  "length example_distances = 4" "length example_anchors = 4"
  by (simp_all add: example_trilat_def example_distances_def example_anchors_def)

lemma example_init: "Trilateration_init example_anchors = Inr example_trilat"
  by (simp add: Trilateration_init_def example_anchors_def example_trilat_def)

lemma example_system:
  "lls_system example_trilat example_distances =
     ([[10, 0, 0], [10, 10, 0], [0, 10, 0]], [-25, -50, -25])"
  by (simp add: lls_system_def example_trilat_def example_anchors_def example_distances_def
        upt_conv_Cons eval_nat_numeral)

lemma example_centroid: "centroid example_anchors = (5/2, 5/2, 5/2)"
  by (simp add: centroid_def example_anchors_def)

lemma example_linear_least_squares:
  "linear_least_squares example_lstsq example_trilat example_distances = Some (-5/2, -5/2, 0)"
  by (simp add: linear_least_squares_def example_system example_lstsq_def example_fields)

text \<open>The solution in \<open>example_lstsq\<close> satisfies every equation of the system, and the
  point \<open>(2.5, 2.5, 1.25)\<close> to which \<open>minimize_converges\<close> converges is a global minimiser of
  the objective (the objective is a sum of squares and vanishes there).\<close>

lemma example_lstsq_solves:
  "map (\<lambda>row. row ! 0 * (-5/2) + row ! 1 * (-5/2) + row ! 2 * 0)
       (fst (lls_system example_trilat example_distances)) =
   snd (lls_system example_trilat example_distances)"
  by (simp add: example_system)

lemma sqrt_225_16: "sqrt (225/16) = 15/4"
proof -
  have "sqrt ((15/4)\<^sup>2) = (15/4 :: real)" by simp
  moreover have "((15/4)\<^sup>2 :: real) = 225/16" by (simp add: power2_eq_square)
  ultimately show ?thesis by simp
qed

lemma example_objective_zero:
  "objective example_trilat example_distances (5/2, 5/2, 5/4) = 0"
  by (simp add: objective_def example_trilat_def example_anchors_def example_distances_def
        upt_conv_Cons eval_nat_numeral power2_eq_square sqrt_225_16)

lemma objective_loop_nonneg:
  "0 \<le> error_sum \<Longrightarrow> 0 \<le> objective_loop aps ds p idxs error_sum"
  by (induction aps ds p idxs error_sum rule: objective_loop.induct) simp_all

lemma objective_nonneg: "0 \<le> objective t ds p"
  by (simp add: objective_def objective_loop_nonneg)

text \<open>
  The system as the loop builds it. For \<open>n \<ge> 4\<close> anchors (an object built by the
  constructor) and \<open>n\<close> distances there are \<open>n - 1\<close> equations in three unknowns: for each
  anchor \<open>i\<close> from 1 to \<open>n - 1\<close>, row \<open>i - 1\<close> of the coefficient matrix is
  \<open>(2(xi - x0), 2(yi - y0), 2(zi - z0))\<close> and entry \<open>i - 1\<close> of the right-hand side is
  \<open>(ri\<^sup>2 - r0\<^sup>2) - (xi\<^sup>2 - x0\<^sup>2) - (yi\<^sup>2 - y0\<^sup>2) - (zi\<^sup>2 - z0\<^sup>2)\<close>, with anchor 0 as the
  reference; the result of Stage A is the solution that \<open>lstsq\<close> returns for this system
  (\<open>None\<close> when \<open>lstsq\<close> raises).
\<close>

theorem linear_least_squares_system:
  assumes "Trilateration_init aps = Inr t"
      and "length ds = length aps"
      and "1 \<le> i" and "i < length aps"
      and "aps ! 0 = (x0, y0, z0)"
      and "aps ! i = (xi, yi, zi)"
  shows "length (fst (lls_system t ds)) = length aps - 1 \<and>
         length (snd (lls_system t ds)) = length aps - 1 \<and>
         fst (lls_system t ds) ! (i - 1) = [2 * (xi - x0), 2 * (yi - y0), 2 * (zi - z0)] \<and>
         snd (lls_system t ds) ! (i - 1) =
           ((ds ! i)\<^sup>2 - (ds ! 0)\<^sup>2) - (xi\<^sup>2 - x0\<^sup>2) - (yi\<^sup>2 - y0\<^sup>2) - (zi\<^sup>2 - z0\<^sup>2) \<and>
         linear_least_squares lstsq t ds =
           (case lstsq (fst (lls_system t ds)) (snd (lls_system t ds)) of
              Inl e \<Rightarrow> None
            | Inr r \<Rightarrow> Some (lstsq_x r))"
  using lls_system_length [OF assms(1), of ds]
        lls_system_nth [OF assms(1,3,4), of ds]
        linear_least_squares_solve [OF assms(1,2), of lstsq]
  by (simp add: assms(5,6))

theorem linear_least_squares_system_witness:
  "Trilateration_init example_anchors = Inr example_trilat \<and>
   length example_distances = length example_anchors \<and>
   (1::nat) \<le> 2 \<and> 2 < length example_anchors \<and>
   example_anchors ! 0 = (0, 0, 5/2) \<and> example_anchors ! 2 = (5, 5, 5/2) \<and>
   length (fst (lls_system example_trilat example_distances)) = 3 \<and>
   fst (lls_system example_trilat example_distances) ! 1 = [10, 10, 0] \<and>
   snd (lls_system example_trilat example_distances) ! 1 = -50 \<and>
   linear_least_squares example_lstsq example_trilat example_distances = Some (-5/2, -5/2, 0)"
proof -
  have a0: "example_anchors ! 0 = (0, 0, 5/2)" and a2: "example_anchors ! 2 = (5, 5, 5/2)"
    by (simp_all add: example_anchors_def)
  have len: "length example_distances = length example_anchors"
    by (simp add: example_fields)
  have i: "(1::nat) \<le> 2" "2 < length example_anchors"
    by (simp_all add: example_fields)
  have ds: "example_distances ! 2 = 15/4" "example_distances ! 0 = 15/4"
    by (simp_all add: example_distances_def)
  from linear_least_squares_system [OF example_init len i a0 a2, of example_lstsq]
  have rows: "length (fst (lls_system example_trilat example_distances)) = 3"
             "fst (lls_system example_trilat example_distances) ! 1 = [10, 10, 0]"
             "snd (lls_system example_trilat example_distances) ! 1 = -50"
    by (simp_all add: example_fields ds)
  from rows example_init len i a0 a2 example_linear_least_squares show ?thesis
    by simp
qed

text \<open>
  Subtracting the squared-distance equation of anchor 0 from that of anchor \<open>i\<close> gives
  \<open>-2(xi - x0) x - 2(yi - y0) y - 2(zi - z0) z\<close> on the left of the right-hand side above.
  The rows the loop writes have the opposite sign: for the exact distances of a point
  \<open>p\<close>, the left-hand side of every row at \<open>p\<close> is the negative of the row's right-hand
  side.
\<close>

lemma norm3_sq:
  "(norm3 (px, py, pz) (ax, ay, az))\<^sup>2 = (px - ax)\<^sup>2 + (py - ay)\<^sup>2 + (pz - az)\<^sup>2"
  by simp

lemma lls_row_at_true_point:
  "lls_row a0 ai ! 0 * fst p + lls_row a0 ai ! 1 * fst (snd p) + lls_row a0 ai ! 2 * snd (snd p)
     = - lls_rhs a0 (norm3 p a0) ai (norm3 p ai)"
proof -
  obtain px py pz where p: "p = (px, py, pz)" by (cases p) auto
  obtain x0 y0 z0 where a0: "a0 = (x0, y0, z0)" by (cases a0) auto
  obtain xi yi zi where ai: "ai = (xi, yi, zi)" by (cases ai) auto
  show ?thesis
    unfolding p a0 ai lls_rhs.simps norm3_sq
    by (simp add: power2_eq_square algebra_simps)
qed

section \<open>The sign of Stage A's system\<close>

text \<open>
  For an object built by the constructor and the exact distances of any point \<open>p\<close>, every
  equation of the system is satisfied by \<open>-p\<close>, and its left-hand side at \<open>p\<close> itself is the
  negative of its right-hand side.
\<close>

lemma dot3_minus: "dot3 row (- fst p, - fst (snd p), - snd (snd p)) = - dot3 row p"
  by (simp add: dot3_def)

lemma lls_system_mirror_image:
  assumes init: "Trilateration_init aps = Inr t"
      and i: "1 \<le> i" "i < length aps"
  shows "dot3 (fst (lls_system t (map (norm3 p) aps)) ! (i - 1)) p =
           - snd (lls_system t (map (norm3 p) aps)) ! (i - 1)"
    and "dot3 (fst (lls_system t (map (norm3 p) aps)) ! (i - 1))
              (- fst p, - fst (snd p), - snd (snd p)) =
           snd (lls_system t (map (norm3 p) aps)) ! (i - 1)"
proof -
  have "0 < length aps" using i by (cases aps) simp_all
  then have ds: "map (norm3 p) aps ! 0 = norm3 p (aps ! 0)"
                "map (norm3 p) aps ! i = norm3 p (aps ! i)"
    using i by simp_all
  show first: "dot3 (fst (lls_system t (map (norm3 p) aps)) ! (i - 1)) p =
           - snd (lls_system t (map (norm3 p) aps)) ! (i - 1)"
    unfolding dot3_def lls_system_nth [OF init i] ds
    by (rule lls_row_at_true_point)
  show "dot3 (fst (lls_system t (map (norm3 p) aps)) ! (i - 1))
              (- fst p, - fst (snd p), - snd (snd p)) =
           snd (lls_system t (map (norm3 p) aps)) ! (i - 1)"
    by (simp only: dot3_minus first)
qed

lemma axis_fields:
  "anchor_positions axis_trilat = axis_anchors" "num_anchors axis_trilat = 4"
  "length axis_distances = 4" "length axis_anchors = 4"
  by (simp_all add: axis_trilat_def axis_distances_def axis_anchors_def)

lemma axis_distances_eval: "axis_distances = [13, 13, 13, 13]"
proof -
  have "sqrt (13\<^sup>2) = (13 :: real)" by simp
  moreover have "(13\<^sup>2 :: real) = 169" by simp
  ultimately have "sqrt 169 = 13" by simp
  then show ?thesis by (simp add: axis_distances_def axis_anchors_def)
qed

lemma axis_system:
  "lls_system axis_trilat axis_distances =
     ([[12, 0, 0], [0, 16, 0], [0, 0, 48]], [-36, -64, -576])"
  by (simp add: lls_system_def axis_trilat_def axis_anchors_def axis_distances_eval
        upt_conv_Cons eval_nat_numeral)

text \<open>
  C6 at a concrete input. For the axis anchors and the exact distances \<open>[13, 13, 13, 13]\<close>
  of the target \<open>(3, 4, 12)\<close>, the loop builds the rows \<open>(12,0,0)\<close>, \<open>(0,16,0)\<close>, \<open>(0,0,48)\<close>
  and the right-hand side \<open>(-36, -64, -576)\<close>. Subtracting the squared-distance equation of
  anchor 0 from that of anchor \<open>i\<close> gives an equation the target satisfies; here the
  left-hand sides at the target are \<open>(36, 64, 576)\<close>, the negatives of the right-hand
  sides. The system is solved by \<open>(-3, -4, -12)\<close>, and that is what
  \<open>linear_least_squares\<close> returns.
\<close>

theorem linear_least_squares_returns_mirror_image:
  "Trilateration_init axis_anchors = Inr axis_trilat \<and>
   axis_distances = [13, 13, 13, 13] \<and>
   lls_system axis_trilat axis_distances =
     ([[12, 0, 0], [0, 16, 0], [0, 0, 48]], [-36, -64, -576]) \<and>
   map (\<lambda>row. dot3 row (3, 4, 12)) (fst (lls_system axis_trilat axis_distances)) =
     [36, 64, 576] \<and>
   map (\<lambda>row. dot3 row (-3, -4, -12)) (fst (lls_system axis_trilat axis_distances)) =
     snd (lls_system axis_trilat axis_distances) \<and>
   linear_least_squares axis_lstsq axis_trilat axis_distances = Some (-3, -4, -12) \<and>
   estimate_position axis_lstsq minimize_not_converged axis_trilat axis_distances ''lls''
     = Some (-3, -4, -12)"
proof -
  have init: "Trilateration_init axis_anchors = Inr axis_trilat"
    by (simp add: Trilateration_init_def axis_anchors_def axis_trilat_def)
  have at_target:
    "map (\<lambda>row. dot3 row (3, 4, 12)) (fst (lls_system axis_trilat axis_distances)) =
       [36, 64, 576]"
    by (simp add: axis_system dot3_def)
  have at_mirror:
    "map (\<lambda>row. dot3 row (-3, -4, -12)) (fst (lls_system axis_trilat axis_distances)) =
       snd (lls_system axis_trilat axis_distances)"
    by (simp add: axis_system dot3_def)
  have stage_A: "linear_least_squares axis_lstsq axis_trilat axis_distances = Some (-3, -4, -12)"
    by (simp add: linear_least_squares_def axis_system axis_lstsq_def axis_fields)
  have lls: "estimate_position axis_lstsq minimize_not_converged axis_trilat axis_distances
               ''lls'' = Some (-3, -4, -12)"
    by (simp add: estimate_position_def stage_A)
  from init axis_distances_eval axis_system at_target at_mirror stage_A lls
  show ?thesis by blast
qed

lemma recovery_fields:
  "anchor_positions recovery_trilat = recovery_anchors" "num_anchors recovery_trilat = 4"
  "length recovery_distances = 4" "length recovery_anchors = 4"
  by (simp_all add: recovery_trilat_def recovery_distances_def recovery_anchors_def)

lemma recovery_init: "Trilateration_init recovery_anchors = Inr recovery_trilat"
  by (simp add: Trilateration_init_def recovery_anchors_def recovery_trilat_def)

lemma recovery_system:
  "lls_system recovery_trilat recovery_distances =
     ([[10, 0, 0], [10, 10, 0], [0, 10, 5]], [-25, -50, -30])"
  by (simp add: lls_system_def recovery_trilat_def recovery_anchors_def recovery_distances_def
        upt_conv_Cons eval_nat_numeral power2_eq_square)

text \<open>The system of the noiseless-recovery input has exactly one solution, the mirror image
  of the target. A solver that returns a solution of the system therefore makes Stage A
  return that point, and the combined estimate is what the optimizer reaches from it (or,
  when that run gives nothing, from the centroid).\<close>

lemma recovery_system_unique:
  assumes "map (\<lambda>row. dot3 row q) [[10, 0, 0], [10, 10, 0], [0, 10, 5]] = [-25, -50, -30]"
  shows "q = (-5/2, -5/2, -1)"
proof -
  obtain x y z where q: "q = (x, y, z)" by (cases q) auto
  from assms have "10 * x = -25" "10 * x + 10 * y = -50" "10 * y + 5 * z = -30"
    by (simp_all add: q dot3_def)
  then have "x = -5/2" "y = -5/2" "z = -1" by simp_all
  then show ?thesis by (simp add: q)
qed

lemma recovery_seed:
  assumes solved: "lstsq (fst (lls_system recovery_trilat recovery_distances))
                         (snd (lls_system recovery_trilat recovery_distances)) = Inr r"
      and exact: "map (\<lambda>row. dot3 row (lstsq_x r))
                      (fst (lls_system recovery_trilat recovery_distances)) =
                    snd (lls_system recovery_trilat recovery_distances)"
  shows "linear_least_squares lstsq recovery_trilat recovery_distances = Some (-5/2, -5/2, -1)"
    and "estimate_position lstsq minimize recovery_trilat recovery_distances ''multi'' =
           (case nonlinear_optimization minimize recovery_trilat recovery_distances
                   (Some (-5/2, -5/2, -1)) of
              Some q \<Rightarrow> Some q
            | None \<Rightarrow> nonlinear_optimization minimize recovery_trilat recovery_distances None)"
proof -
  have x: "lstsq_x r = (-5/2, -5/2, -1)"
    using exact by (intro recovery_system_unique) (simp add: recovery_system)
  show stage_A: "linear_least_squares lstsq recovery_trilat recovery_distances
                   = Some (-5/2, -5/2, -1)"
    using linear_least_squares_solve [OF recovery_init, of recovery_distances lstsq] solved x
    by (simp add: recovery_fields)
  show "estimate_position lstsq minimize recovery_trilat recovery_distances ''multi'' =
           (case nonlinear_optimization minimize recovery_trilat recovery_distances
                   (Some (-5/2, -5/2, -1)) of
              Some q \<Rightarrow> Some q
            | None \<Rightarrow> nonlinear_optimization minimize recovery_trilat recovery_distances None)"
    by (simp add: estimate_position_def multilateral_algorithm_def stage_A)
qed


section \<open>Stage B and the combined estimate\<close>






text \<open>
  C3, as stated, fails. On the worked configuration Stage A produces \<open>(-2.5, -2.5, 0)\<close>; the
  optimizer started there does not converge, so Stage B seeded with it returns \<open>None\<close>; the
  combined estimate then runs Stage B from the centroid and returns that run's output. The
  centroid seed is used although Stage A did not fail, and what is returned is not the
  output of the Stage-A-seeded run.
\<close>

theorem centroid_seed_after_successful_stage_A:
  "length example_distances = num_anchors example_trilat \<and>
   linear_least_squares example_lstsq example_trilat example_distances = Some (-5/2, -5/2, 0) \<and>
   nonlinear_optimization minimize_converges_from_centroid example_trilat example_distances
       (Some (-5/2, -5/2, 0)) = None \<and>
   nonlinear_optimization minimize_converges_from_centroid example_trilat example_distances
       None = Some (5/2, 5/2, 5/4) \<and>
   multilateral_algorithm example_lstsq minimize_converges_from_centroid example_trilat
       example_distances = Some (5/2, 5/2, 5/4) \<and>
   estimate_position example_lstsq minimize_converges_from_centroid example_trilat
       example_distances ''multi'' = Some (5/2, 5/2, 5/4)"
  by (simp add: estimate_position_def multilateral_algorithm_def example_linear_least_squares
        nonlinear_optimization_def minimize_converges_from_centroid_def example_fields
        example_centroid)

text \<open>
  C3, amended. For every distance list of the right length the combined estimate runs
  Stage A first. When Stage A produces a result and Stage B seeded with it produces a
  result, that output is returned. When Stage A fails, or Stage B seeded with Stage A's
  result produces nothing, the outcome of Stage B from the default seed (the anchor
  centroid) is returned.
\<close>

theorem multilateral_algorithm_seeding:
  assumes "length ds = num_anchors t"
  shows "(\<forall>p q. linear_least_squares lstsq t ds = Some p \<and>
                nonlinear_optimization minimize t ds (Some p) = Some q
                \<longrightarrow> multilateral_algorithm lstsq minimize t ds = Some q) \<and>
         ((linear_least_squares lstsq t ds = None \<or>
           (\<exists>p. linear_least_squares lstsq t ds = Some p \<and>
                nonlinear_optimization minimize t ds (Some p) = None))
            \<longrightarrow> multilateral_algorithm lstsq minimize t ds =
                  nonlinear_optimization minimize t ds None)"
  by (auto simp add: multilateral_algorithm_def split: option.splits)

theorem multilateral_algorithm_seeding_witness:
  "length example_distances = num_anchors example_trilat \<and>
   linear_least_squares example_lstsq example_trilat example_distances = Some (-5/2, -5/2, 0) \<and>
   nonlinear_optimization minimize_converges example_trilat example_distances
       (Some (-5/2, -5/2, 0)) = Some (5/2, 5/2, 5/4) \<and>
   multilateral_algorithm example_lstsq minimize_converges example_trilat example_distances
     = Some (5/2, 5/2, 5/4) \<and>
   nonlinear_optimization minimize_not_converged example_trilat example_distances
       (Some (-5/2, -5/2, 0)) = None \<and>
   multilateral_algorithm example_lstsq minimize_not_converged example_trilat example_distances
     = nonlinear_optimization minimize_not_converged example_trilat example_distances None"
proof -
  have len: "length example_distances = num_anchors example_trilat"
    by (simp add: example_fields)
  have seeded: "nonlinear_optimization minimize_converges example_trilat example_distances
       (Some (-5/2, -5/2, 0)) = Some (5/2, 5/2, 5/4)"
    by (simp add: nonlinear_optimization_def minimize_converges_def example_fields)
  have failed: "nonlinear_optimization minimize_not_converged example_trilat example_distances
       (Some (-5/2, -5/2, 0)) = None"
    by (simp add: nonlinear_optimization_def minimize_not_converged_def example_fields)
  from multilateral_algorithm_seeding [OF len, of example_lstsq minimize_converges]
       example_linear_least_squares seeded
  have first: "multilateral_algorithm example_lstsq minimize_converges example_trilat
                 example_distances = Some (5/2, 5/2, 5/4)"
    by blast
  from multilateral_algorithm_seeding [OF len, of example_lstsq minimize_not_converged]
       example_linear_least_squares failed
  have second: "multilateral_algorithm example_lstsq minimize_not_converged example_trilat
                  example_distances =
                nonlinear_optimization minimize_not_converged example_trilat example_distances None"
    by blast
  from len example_linear_least_squares seeded first failed second show ?thesis
    by simp
qed

section \<open>Length mismatch\<close>

text \<open>
  C4, as stated, fails. With three distances against the four anchors of the worked
  configuration \<open>estimate_position\<close> returns \<open>None\<close>; with four distances and an optimizer
  that does not converge it returns \<open>None\<close> as well. The mismatch is not reported by a value
  of its own: the caller cannot tell it from a failed optimization.
\<close>

theorem count_mismatch_not_distinct:
  "length [15/4, 15/4, 15/4 :: real] \<noteq> num_anchors example_trilat \<and>
   estimate_position example_lstsq minimize_not_converged example_trilat
       [15/4, 15/4, 15/4] ''multi'' = None \<and>
   length example_distances = num_anchors example_trilat \<and>
   estimate_position example_lstsq minimize_not_converged example_trilat
       example_distances ''multi'' = None"
proof -
  have short: "estimate_position example_lstsq minimize_not_converged example_trilat
                 [15/4, 15/4, 15/4] ''multi'' = None"
    by (simp add: estimate_position_def multilateral_algorithm_def linear_least_squares_def
          nonlinear_optimization_def example_fields)
  have full: "estimate_position example_lstsq minimize_not_converged example_trilat
                 example_distances ''multi'' = None"
    by (simp add: estimate_position_def multilateral_algorithm_def
          example_linear_least_squares nonlinear_optimization_def minimize_not_converged_def
          example_fields)
  from short full show ?thesis by (simp add: example_fields)
qed

text \<open>
  C4, amended. For every call in which the number of distances differs from the number of
  anchors, both stages return \<open>None\<close> before building a system or starting the optimizer,
  and so \<open>estimate_position\<close> returns \<open>None\<close> for every method, whatever the two solvers
  would do: no partial solve is attempted. \<open>None\<close> is the code's one failure value, shared
  with every other failure.
\<close>

theorem count_mismatch_gives_none:
  assumes "length ds \<noteq> num_anchors t"
  shows "linear_least_squares lstsq t ds = None \<and>
         nonlinear_optimization minimize t ds g = None \<and>
         multilateral_algorithm lstsq minimize t ds = None \<and>
         estimate_position lstsq minimize t ds method = None"
  using assms
  by (simp add: estimate_position_def multilateral_algorithm_def linear_least_squares_def
        nonlinear_optimization_def)

theorem count_mismatch_gives_none_witness:
  "length [15/4, 15/4, 15/4 :: real] \<noteq> num_anchors example_trilat \<and>
   linear_least_squares example_lstsq example_trilat [15/4, 15/4, 15/4] = None \<and>
   nonlinear_optimization minimize_converges example_trilat [15/4, 15/4, 15/4] None = None \<and>
   multilateral_algorithm example_lstsq minimize_converges example_trilat [15/4, 15/4, 15/4]
     = None \<and>
   estimate_position example_lstsq minimize_converges example_trilat [15/4, 15/4, 15/4]
     ''multi'' = None"
proof -
  have mismatch: "length [15/4, 15/4, 15/4 :: real] \<noteq> num_anchors example_trilat"
    by (simp add: example_fields)
  from mismatch
       count_mismatch_gives_none
         [OF mismatch, of example_lstsq minimize_converges None "''multi''"]
  show ?thesis by simp
qed

section \<open>Coplanar anchors\<close>





end
